theory Spec2Isabelle
  imports Main "HOL-Library.Sublist"
begin

section \<open>The Parameter Substitutor: \<open>String.prototype.replace\<close> with a string pattern\<close>

text \<open>
  \<open>src/index.js\<close> rewrites three template files with
  \<^verbatim>\<open>text.replace('{{TOKEN}}', value)\<close>. Pattern and replacement are both strings, so
  the call is the string branch of ECMAScript's \<open>String.prototype.replace\<close>:
  \<^item> \<open>StringIndexOf\<close> finds the smallest index at which the pattern occurs;
  \<^item> no occurrence: the text is returned as it is;
  \<^item> otherwise the result is the text before the match, then
    \<open>GetSubstitution\<close> of the replacement, then the text after the match.
  Strings are modelled as \<open>char list\<close>.
\<close>

fun index_of :: "string \<Rightarrow> string \<Rightarrow> nat option" where
  "index_of tok [] = (if tok = [] then Some 0 else None)"
| "index_of tok (c # s) =
     (if prefix tok (c # s) then Some 0 else map_option Suc (index_of tok s))"

text \<open>
  \<open>GetSubstitution\<close> with no capture groups (the pattern is a string): in the
  replacement \<open>$$\<close> stands for a dollar sign, \<open>$&\<close> for the matched text, a dollar
  followed by a backquote (character 0x60) for the text before the match, a dollar
  followed by an apostrophe (character 0x27) for the text after it. A dollar followed
  by anything else (digits and \<open><\<close> included, as there are no captures) is kept.
\<close>

fun get_substitution :: "string \<Rightarrow> string \<Rightarrow> string \<Rightarrow> string \<Rightarrow> string" where
  "get_substitution matched preceding following [] = []"
| "get_substitution matched preceding following [c] = [c]"
| "get_substitution matched preceding following (c # d # r) =
     (if c = CHR ''$'' then
        (if d = CHR ''$'' then CHR ''$'' # get_substitution matched preceding following r
         else if d = CHR 0x60 then preceding @ get_substitution matched preceding following r
         else if d = CHR ''&'' then matched @ get_substitution matched preceding following r
         else if d = CHR 0x27 then following @ get_substitution matched preceding following r
         else c # get_substitution matched preceding following (d # r))
      else c # get_substitution matched preceding following (d # r))"

definition js_replace :: "string \<Rightarrow> string \<Rightarrow> string \<Rightarrow> string" where
  "js_replace tok v s =
     (case index_of tok s of
        None \<Rightarrow> s
      | Some i \<Rightarrow>
          (let preceding = take i s; following = drop (i + length tok) s
           in preceding @ get_substitution tok preceding following v @ following))"

datatype placeholder = PACKAGE_NAME | APP_NAME | VERSION | URL

fun token :: "placeholder \<Rightarrow> string" where
  "token PACKAGE_NAME = ''{{PACKAGE_NAME}}''"
| "token APP_NAME = ''{{APP_NAME}}''"
| "token VERSION = ''{{VERSION}}''"
| "token URL = ''{{URL}}''"

text \<open>Lines 56-59, 65-67 and 92: the chains of \<open>replace\<close> calls, in the source's order.\<close>

definition substitute_manifest :: "string \<Rightarrow> string \<Rightarrow> string \<Rightarrow> string \<Rightarrow> string" where
  "substitute_manifest packageName appName version manifest =
     js_replace (token VERSION) version
       (js_replace (token APP_NAME) appName
         (js_replace (token PACKAGE_NAME) packageName manifest))"

definition substitute_gradle :: "string \<Rightarrow> string \<Rightarrow> string \<Rightarrow> string" where
  "substitute_gradle packageName version gradle =
     js_replace (token VERSION) version
       (js_replace (token PACKAGE_NAME) packageName gradle)"

definition substitute_main_activity :: "string \<Rightarrow> string \<Rightarrow> string" where
  "substitute_main_activity url mainActivity = js_replace (token URL) url mainActivity"


section \<open>Paths: \<open>path.join\<close>, \<open>path.dirname\<close>, \<open>path.extname\<close>\<close>

text \<open>
  An absolute POSIX path is the list of its segments (the root is \<open>[]\<close>).
  \<open>path.join\<close> concatenates its arguments with \<open>/\<close> and normalises the result:
  empty segments and \<open>.\<close> are dropped, \<open>..\<close> removes the segment before it and
  stays at the root when there is none. The first argument of every call in
  \<open>src/index.js\<close> is \<open>__dirname\<close> or a path already joined, so the model starts
  from a normalised absolute path and folds the remaining arguments over it.
\<close>

type_synonym abspath = "string list"

fun split_slash :: "string \<Rightarrow> string list" where
  "split_slash [] = [[]]"
| "split_slash (c # s) =
     (if c = CHR ''/'' then [] # split_slash s
      else (case split_slash s of
              [] \<Rightarrow> [[c]]
            | seg # segs \<Rightarrow> (c # seg) # segs))"

definition norm_step :: "abspath \<Rightarrow> string \<Rightarrow> abspath" where
  "norm_step acc seg =
     (if seg = [] \<or> seg = ''.'' then acc
      else if seg = ''..'' then butlast acc
      else acc @ [seg])"

definition path_join :: "abspath \<Rightarrow> string list \<Rightarrow> abspath" where
  "path_join base parts = foldl norm_step base (concat (map split_slash parts))"

definition path_dirname :: "abspath \<Rightarrow> abspath" where
  "path_dirname p = butlast p"

fun last_dot :: "string \<Rightarrow> nat option" where
  "last_dot [] = None"
| "last_dot (c # s) =
     (case last_dot s of
        Some i \<Rightarrow> Some (Suc i)
      | None \<Rightarrow> if c = CHR ''.'' then Some 0 else None)"

text \<open>
  \<open>path.extname\<close>: from the last dot of the last segment to its end; empty when
  there is no dot, when the only dot is the first character, or for \<open>..\<close>.
\<close>

definition path_extname :: "abspath \<Rightarrow> string" where
  "path_extname p =
     (case p of
        [] \<Rightarrow> []
      | _ \<Rightarrow>
          (let b = last p
           in case last_dot b of
                None \<Rightarrow> []
              | Some i \<Rightarrow> if i = 0 \<or> b = ''..'' then [] else drop i b))"

section \<open>The file system and the \<open>fs-extra\<close> operations the handlers call\<close>

text \<open>
  The only state shared between requests is the disk: a partial map from absolute
  paths to nodes. A mutating operation returns the new file system, or the error
  it throws together with the file system at that moment.
\<close>

datatype node = File string | Dir

type_synonym fs = "abspath \<rightharpoonup> node"

datatype error = ENOENT | EISDIR | ENOTDIR | EINVAL | BadArchive | OutOfBound

type_synonym outcome = "(error \<times> fs) + fs"

definition then_do :: "outcome \<Rightarrow> (fs \<Rightarrow> outcome) \<Rightarrow> outcome" where
  "then_do r f = (case r of Inl x \<Rightarrow> Inl x | Inr s \<Rightarrow> f s)"

definition is_file :: "fs \<Rightarrow> abspath \<Rightarrow> bool" where
  "is_file s p = (case s p of Some (File c) \<Rightarrow> True | _ \<Rightarrow> False)"

definition existsSync :: "abspath \<Rightarrow> fs \<Rightarrow> bool" where
  "existsSync p s = (s p \<noteq> None)"

text \<open>
  \<open>fs.ensureDirSync\<close> (a recursive \<open>mkdir\<close>): every missing ancestor and the
  directory itself are created; it throws when a component of the path is a file.
\<close>

definition mkdirs :: "abspath \<Rightarrow> fs \<Rightarrow> fs" where
  "mkdirs d s p =
     (case s p of
        None \<Rightarrow> if prefix p d then Some Dir else None
      | Some n \<Rightarrow> Some n)"

definition ensureDirSync :: "abspath \<Rightarrow> fs \<Rightarrow> outcome" where
  "ensureDirSync d s =
     (if list_ex (is_file s) (prefixes d) then Inl (ENOTDIR, s)
      else Inr (mkdirs d s))"

definition readFile :: "abspath \<Rightarrow> fs \<Rightarrow> error + string" where
  "readFile p s =
     (case s p of
        None \<Rightarrow> Inl ENOENT
      | Some Dir \<Rightarrow> Inl EISDIR
      | Some (File c) \<Rightarrow> Inr c)"

definition writeFile :: "abspath \<Rightarrow> string \<Rightarrow> fs \<Rightarrow> outcome" where
  "writeFile p c s =
     (if s p = Some Dir then Inl (EISDIR, s)
      else if s (path_dirname p) \<noteq> Some Dir then Inl (ENOENT, s)
      else Inr (s(p \<mapsto> File c)))"

text \<open>
  \<open>fs.copy\<close> of \<open>fs-extra\<close> (default options, so existing files are overwritten):
  the source must exist, the destination must not lie inside the source, a
  file does not replace a directory nor a directory a file; the parent of the
  destination is created; a file is copied to the destination, a directory tree
  is merged into it node by node.
\<close>

definition merge_tree :: "fs \<Rightarrow> abspath \<Rightarrow> abspath \<Rightarrow> fs \<Rightarrow> fs" where
  "merge_tree s0 src dest s p =
     (if prefix dest p
      then (case s0 (src @ drop (length dest) p) of
              Some n \<Rightarrow> Some n
            | None \<Rightarrow> s p)
      else s p)"

definition fs_copy :: "abspath \<Rightarrow> abspath \<Rightarrow> fs \<Rightarrow> outcome" where
  "fs_copy src dest s =
     (case s src of
        None \<Rightarrow> Inl (ENOENT, s)
      | Some n \<Rightarrow>
          if prefix src dest then Inl (EINVAL, s)
          else if n = Dir \<and> is_file s dest then Inl (ENOTDIR, s)
          else if n \<noteq> Dir \<and> s dest = Some Dir then Inl (EISDIR, s)
          else then_do (ensureDirSync (path_dirname dest) s)
                 (\<lambda>s1. Inr (merge_tree s src dest s1)))"

text \<open>\<open>fs.remove\<close>: the path and everything below it disappear; a missing path is no error.\<close>

definition fs_remove :: "abspath \<Rightarrow> fs \<Rightarrow> fs" where
  "fs_remove d s p = (if prefix d p then None else s p)"

text \<open>
  \<open>extract-zip\<close>: the archive decoder is a parameter (the bytes of an archive
  decode to a list of entries, each a relative path and the file's bytes, or do not
  decode). Entries are written in order under the target directory, the parent
  directories created on the way; an entry whose path would leave the target
  directory stops the extraction with an error, what was written before stays.
\<close>

definition safe_rel :: "abspath \<Rightarrow> bool" where
  "safe_rel rel \<longleftrightarrow>
     rel \<noteq> [] \<and>
     (\<forall>seg \<in> set rel. seg \<noteq> [] \<and> seg \<noteq> ''.'' \<and> seg \<noteq> ''..'' \<and> CHR ''/'' \<notin> set seg)"

fun extract_entries :: "abspath \<Rightarrow> (abspath \<times> string) list \<Rightarrow> fs \<Rightarrow> outcome" where
  "extract_entries dir [] s = Inr s"
| "extract_entries dir ((rel, c) # es) s =
     (if \<not> safe_rel rel then Inl (OutOfBound, s)
      else then_do (ensureDirSync (path_dirname (dir @ rel)) s)
             (\<lambda>s1. then_do (writeFile (dir @ rel) c s1) (extract_entries dir es)))"

definition extract_zip ::
  "(string \<Rightarrow> (abspath \<times> string) list option) \<Rightarrow> abspath \<Rightarrow> abspath \<Rightarrow> fs \<Rightarrow> outcome" where
  "extract_zip decode zipPath dir s =
     (case readFile zipPath s of
        Inl e \<Rightarrow> Inl (e, s)
      | Inr z \<Rightarrow>
          (case decode z of
             None \<Rightarrow> Inl (BadArchive, s)
           | Some es \<Rightarrow> extract_entries dir es s))"

section \<open>Requests, responses and the environment\<close>

text \<open>
  What the handlers take from outside: \<open>__dirname\<close> (a normalised absolute path),
  the external build command (run with the workspace as working directory, it
  changes the disk somehow and \<open>exec\<close> reports an error or none) and the archive
  decoder. Identifiers from \<open>uuidv4()\<close> are arguments of the functions that
  draw them. One request is followed from its start to its response; requests
  interleaving on the disk are outside the model.
\<close>

record env =
  module_dir :: abspath
  gradlew :: "abspath \<Rightarrow> fs \<Rightarrow> bool \<times> fs"
  unzip :: "string \<Rightarrow> (abspath \<times> string) list option"

record multer_file =
  originalname :: string
  path :: abspath

record body_fields =
  appName :: "string option"
  packageName :: "string option"
  version :: "string option"
  url :: "string option"

record request = body_fields +
  icon :: "multer_file option"
  htmlFile :: "multer_file option"

record multipart_form = body_fields +
  icon_part :: "(string \<times> string) option"
  htmlFile_part :: "(string \<times> string) option"

datatype body = ErrorBody string | SuccessBody abspath string

text \<open>
  \<open>Json status body\<close> is \<open>res.status(status).json(body)\<close>, \<open>Attachment\<close> a
  completed \<open>res.download\<close>, \<open>Aborted\<close> one whose stream failed, \<open>NoResponse\<close> a
  request that is never answered (an exception that nothing catches),
  \<open>UploadFailed\<close> an error of the upload layer before the handler runs.
\<close>

datatype response =
  Json nat body
| Attachment string string
| Aborted
| NoResponse
| UploadFailed

definition temp_root :: "env \<Rightarrow> abspath" where
  "temp_root e = path_join (module_dir e) [''../temp'']"

definition templateDir :: "env \<Rightarrow> abspath" where
  "templateDir e = path_join (module_dir e) [''../templates/android-webview'']"

text \<open>
  Line 16, the staging directory of an upload; line 47, the workspace of a build;
  lines 103 and 130, the artifact inside it.
\<close>

definition staging_dir :: "env \<Rightarrow> string \<Rightarrow> abspath" where
  "staging_dir e uuid = path_join (module_dir e) [''../temp'', uuid]"

definition build_dir :: "env \<Rightarrow> string \<Rightarrow> abspath" where
  "build_dir e buildId = path_join (module_dir e) [''../temp'', buildId]"

definition apk_rel :: string where
  "apk_rel = ''app/build/outputs/apk/debug/app-debug.apk''"

definition download_apk_path :: "env \<Rightarrow> string \<Rightarrow> abspath" where
  "download_apk_path e buildId = path_join (module_dir e) [''../temp'', buildId, apk_rel]"

section \<open>The upload layer (lines 14-25 and 33-36)\<close>

text \<open>
  \<open>multer.diskStorage\<close>: for each uploaded file the \<open>destination\<close> callback makes a
  fresh directory under the temp root, the \<open>filename\<close> callback keeps the original
  name, and the file is written to the join of the two, before the handler runs.
\<close>

definition store_file ::
  "env \<Rightarrow> string \<Rightarrow> string \<times> string \<Rightarrow> fs \<Rightarrow> (error \<times> fs) + (multer_file \<times> fs)" where
  "store_file e uuid part s =
     (let tempDir = staging_dir e uuid
      in case ensureDirSync tempDir s of
           Inl x \<Rightarrow> Inl x
         | Inr s1 \<Rightarrow>
             (let finalPath = path_join tempDir [fst part]
              in case writeFile finalPath (snd part) s1 of
                   Inl x \<Rightarrow> Inl x
                 | Inr s2 \<Rightarrow> Inr (\<lparr>originalname = fst part, path = finalPath\<rparr>, s2)))"

definition store_optional ::
  "env \<Rightarrow> string \<Rightarrow> (string \<times> string) option \<Rightarrow> fs \<Rightarrow>
     (error \<times> fs) + (multer_file option \<times> fs)" where
  "store_optional e uuid part s =
     (case part of
        None \<Rightarrow> Inr (None, s)
      | Some pt \<Rightarrow>
          (case store_file e uuid pt s of
             Inl x \<Rightarrow> Inl x
           | Inr (f, s1) \<Rightarrow> Inr (Some f, s1)))"

definition upload_fields ::
  "env \<Rightarrow> string \<Rightarrow> string \<Rightarrow> multipart_form \<Rightarrow> fs \<Rightarrow> (error \<times> fs) + (request \<times> fs)" where
  "upload_fields e icon_uuid html_uuid form s =
     (case store_optional e icon_uuid (icon_part form) s of
        Inl x \<Rightarrow> Inl x
      | Inr (ic, s1) \<Rightarrow>
          (case store_optional e html_uuid (htmlFile_part form) s1 of
             Inl x \<Rightarrow> Inl x
           | Inr (h, s2) \<Rightarrow>
               Inr (\<lparr>appName = appName form, packageName = packageName form,
                      version = version form, url = url form,
                      icon = ic, htmlFile = h\<rparr>, s2)))"

section \<open>\<open>POST /generate-app\<close> (lines 36-125)\<close>

text \<open>\<open>!field\<close> is true for a missing field and for the empty string.\<close>

fun required :: "string option \<Rightarrow> string option" where
  "required None = None"
| "required (Some v) = (if v = [] then None else Some v)"

text \<open>
  Lines 55-60, 64-68 and 91-93: \<open>readFile\<close>, the chain of \<open>replace\<close> calls,
  \<open>writeFile\<close> to the same path. Lines 71-75: the icon, when there is one, is
  copied over the launcher icon of the workspace. Lines 78-87: the web content,
  when there is some, is extracted into \<open>app/src/main/assets/web\<close> if
  \<open>path.extname\<close> of its staged path is \<open>.zip\<close>, and copied to \<open>index.html\<close>
  in that directory otherwise.
\<close>

definition rewrite_file :: "abspath \<Rightarrow> (string \<Rightarrow> string) \<Rightarrow> fs \<Rightarrow> outcome" where
  "rewrite_file p f s =
     (case readFile p s of
        Inl err \<Rightarrow> Inl (err, s)
      | Inr c \<Rightarrow> writeFile p (f c) s)"

definition handle_icon :: "abspath \<Rightarrow> multer_file option \<Rightarrow> fs \<Rightarrow> outcome" where
  "handle_icon buildDir ic s =
     (case ic of
        None \<Rightarrow> Inr s
      | Some f \<Rightarrow>
          fs_copy (path f)
            (path_join buildDir [''app/src/main/res/mipmap-xxxhdpi/ic_launcher.png'']) s)"

definition handle_html :: "env \<Rightarrow> abspath \<Rightarrow> multer_file option \<Rightarrow> fs \<Rightarrow> outcome" where
  "handle_html e buildDir h s =
     (case h of
        None \<Rightarrow> Inr s
      | Some f \<Rightarrow>
          (let htmlPath = path f;
               targetHtmlPath = path_join buildDir [''app/src/main/assets/web'']
           in if path_extname htmlPath = ''.zip''
              then extract_zip (unzip e) htmlPath targetHtmlPath s
              else fs_copy htmlPath (path_join targetHtmlPath [''index.html'']) s))"

text \<open>
  Lines 47-93, everything inside \<open>try\<close> before \<open>exec\<close>: the first operation that
  throws ends the sequence.
\<close>

definition prepare ::
  "env \<Rightarrow> request \<Rightarrow> string \<Rightarrow> string \<Rightarrow> string \<Rightarrow> string \<Rightarrow> abspath \<Rightarrow> fs \<Rightarrow> outcome" where
  "prepare e req an pn ver u buildDir s =
     then_do (ensureDirSync buildDir s) (\<lambda>s1.
     then_do (fs_copy (templateDir e) buildDir s1) (\<lambda>s2.
     then_do (rewrite_file (path_join buildDir [''app/src/main/AndroidManifest.xml''])
                (substitute_manifest pn an ver) s2) (\<lambda>s3.
     then_do (rewrite_file (path_join buildDir [''app/build.gradle''])
                (substitute_gradle pn ver) s3) (\<lambda>s4.
     then_do (handle_icon buildDir (icon req) s4) (\<lambda>s5.
     then_do (handle_html e buildDir (htmlFile req) s5) (\<lambda>s6.
     rewrite_file
       (path_join buildDir [''app/src/main/java/com/example/webview/MainActivity.java''])
       (substitute_main_activity u) s6))))))"

text \<open>
  Lines 97-120, the callback of \<open>exec\<close>. It runs after the \<open>try\<close> block has been
  left, so what it throws is caught by nothing and no response is sent.
\<close>

definition exec_callback ::
  "request \<Rightarrow> string \<Rightarrow> abspath \<Rightarrow> bool \<Rightarrow> fs \<Rightarrow> response \<times> fs" where
  "exec_callback req buildId buildDir err s =
     (if err then (Json 500 (ErrorBody ''Failed to build APK''), s)
      else
        (let apkPath = path_join buildDir [apk_rel]
         in if existsSync apkPath s then
              (case icon req of
                 None \<Rightarrow> (NoResponse, s)
               | Some ic \<Rightarrow>
                   (let s1 = fs_remove (path_dirname (path ic)) s;
                        s2 = (case htmlFile req of
                                None \<Rightarrow> s1
                              | Some h \<Rightarrow> fs_remove (path_dirname (path h)) s1)
                    in (Json 200 (SuccessBody apkPath (''/download/'' @ buildId)), s2)))
            else (Json 500 (ErrorBody ''APK generation failed''), s)))"

definition generate_app :: "env \<Rightarrow> request \<Rightarrow> string \<Rightarrow> fs \<Rightarrow> response \<times> fs" where
  "generate_app e req buildId s =
     (case (required (appName req), required (packageName req),
            required (version req), required (url req)) of
        (Some an, Some pn, Some ver, Some u) \<Rightarrow>
          (let buildDir = build_dir e buildId
           in case prepare e req an pn ver u buildDir s of
                Inl (err, s') \<Rightarrow> (Json 500 (ErrorBody ''Internal server error''), s')
              | Inr s1 \<Rightarrow>
                  (case gradlew e buildDir s1 of
                     (err, s2) \<Rightarrow> exec_callback req buildId buildDir err s2))
      | _ \<Rightarrow> (Json 400 (ErrorBody ''Missing required fields''), s))"

text \<open>The route as a whole: the upload layer, then the handler.\<close>

definition post_generate_app ::
  "env \<Rightarrow> string \<Rightarrow> string \<Rightarrow> string \<Rightarrow> multipart_form \<Rightarrow> fs \<Rightarrow> response \<times> fs" where
  "post_generate_app e icon_uuid html_uuid buildId form s =
     (case upload_fields e icon_uuid html_uuid form s of
        Inl (err, s') \<Rightarrow> (UploadFailed, s')
      | Inr (req, s1) \<Rightarrow> generate_app e req buildId s1)"

section \<open>\<open>GET /download/:buildId\<close> (lines 128-143)\<close>

text \<open>
  \<open>stream_ok\<close> tells whether the transfer completed. The callback of
  \<open>res.download\<close> removes \<open>path.dirname(apkPath)\<close> in either case. A directory at
  the artifact path passes \<open>existsSync\<close> and cannot be sent.
\<close>

definition download :: "env \<Rightarrow> bool \<Rightarrow> string \<Rightarrow> fs \<Rightarrow> response \<times> fs" where
  "download e stream_ok buildId s =
     (let apkPath = download_apk_path e buildId
      in if existsSync apkPath s then
           ((case s apkPath of
               Some (File bytes) \<Rightarrow> if stream_ok then Attachment ''app.apk'' bytes else Aborted
             | _ \<Rightarrow> NoResponse),
            fs_remove (path_dirname apkPath) s)
         else (Json 404 (ErrorBody ''APK not found''), s))"

section \<open>What the claims speak of\<close>

subsection \<open>First occurrence of a token\<close>



subsection \<open>Templates as literal text and placeholders\<close>








subsection \<open>Frames on the disk\<close>

text \<open>
  \<open>kept_outside d s s'\<close>: every node of \<open>s\<close> that is not at or below \<open>d\<close> is still
  there in \<open>s'\<close>, unchanged. \<open>confined\<close>: a build command that leaves everything
  outside its working directory alone. \<open>state_of\<close>: the disk an operation leaves,
  whether it threw or not. \<open>segment\<close>: a string that is one path segment, as the
  identifiers of \<open>uuidv4()\<close> are.
\<close>

fun state_of :: "outcome \<Rightarrow> fs" where
  "state_of (Inl (err, s)) = s"
| "state_of (Inr s) = s"


definition kept_outside :: "abspath \<Rightarrow> fs \<Rightarrow> fs \<Rightarrow> bool" where
  "kept_outside d s s' \<longleftrightarrow> (\<forall>p n. \<not> prefix d p \<and> s p = Some n \<longrightarrow> s' p = Some n)"


fun is_success :: "response \<Rightarrow> bool" where
  "is_success (Json status (SuccessBody apkPath downloadUrl)) = (status = 200)"
| "is_success r = False"

subsection \<open>Archives that extract without conflict\<close>

text \<open>
  \<open>no_conflicts\<close>: no entry of the archive lies below another entry, and a path
  listed twice has the same bytes. \<open>can_extract\<close>: every entry has a safe relative
  path, and on the disk no directory sits where an entry goes and no file sits
  where one of the directories above it goes.
\<close>

definition no_conflicts :: "(abspath \<times> string) list \<Rightarrow> bool" where
  "no_conflicts es \<longleftrightarrow>
     (\<forall>(r1, c1) \<in> set es. \<forall>(r2, c2) \<in> set es.
        \<not> strict_prefix r1 r2 \<and> (r1 = r2 \<longrightarrow> c1 = c2))"

definition can_extract :: "abspath \<Rightarrow> (abspath \<times> string) list \<Rightarrow> fs \<Rightarrow> bool" where
  "can_extract dir es s \<longleftrightarrow>
     (\<forall>(rel, c) \<in> set es.
        safe_rel rel \<and> s (dir @ rel) \<noteq> Some Dir \<and>
        \<not> list_ex (is_file s) (prefixes (path_dirname (dir @ rel))))"

subsection \<open>The fixed places inside a workspace\<close>

text \<open>
  The relative paths the handler joins to the workspace: the three files it
  rewrites, the icon it overwrites, the directory of the web content.
\<close>

definition manifest_rel :: abspath where
  "manifest_rel = [''app'', ''src'', ''main'', ''AndroidManifest.xml'']"

definition gradle_rel :: abspath where
  "gradle_rel = [''app'', ''build.gradle'']"

definition main_activity_rel :: abspath where
  "main_activity_rel =
     [''app'', ''src'', ''main'', ''java'', ''com'', ''example'', ''webview'', ''MainActivity.java'']"

definition icon_rel :: abspath where
  "icon_rel = [''app'', ''src'', ''main'', ''res'', ''mipmap-xxxhdpi'', ''ic_launcher.png'']"

definition web_rel :: abspath where
  "web_rel = [''app'', ''src'', ''main'', ''assets'', ''web'']"

section \<open>A concrete installation\<close>

text \<open>
  The service installed under \<open>/srv\<close> with a small template project, and four build
  commands: one that writes the artifact and succeeds, one that does nothing and
  succeeds, one that writes the artifact and then fails, one that only fails.
\<close>

definition ex_write_apk :: "abspath \<Rightarrow> fs \<Rightarrow> fs" where
  "ex_write_apk cwd s =
     (mkdirs (cwd @ [''app'', ''build'', ''outputs'', ''apk'', ''debug'']) s)
       (cwd @ [''app'', ''build'', ''outputs'', ''apk'', ''debug'', ''app-debug.apk''] \<mapsto> File ''APK'')"

definition ex_env :: env where
  "ex_env = \<lparr>module_dir = [''srv'', ''src''],
             gradlew = (\<lambda>cwd s. (False, ex_write_apk cwd s)),
             unzip = (\<lambda>z. if z = ''PK''
                           then Some [([''index.html''], ''<h1>''), ([''js'', ''app.js''], ''go()'')]
                           else None)\<rparr>"

definition ex_env_no_apk :: env where
  "ex_env_no_apk = ex_env\<lparr>gradlew := (\<lambda>cwd s. (False, s))\<rparr>"

definition ex_env_late_failure :: env where
  "ex_env_late_failure = ex_env\<lparr>gradlew := (\<lambda>cwd s. (True, ex_write_apk cwd s))\<rparr>"

definition ex_env_failure :: env where
  "ex_env_failure = ex_env\<lparr>gradlew := (\<lambda>cwd s. (True, s))\<rparr>"

definition ex_disk :: fs where
  "ex_disk = map_of
     [([], Dir), ([''srv''], Dir), ([''srv'', ''temp''], Dir), ([''srv'', ''templates''], Dir),
      ([''srv'', ''templates'', ''android-webview''], Dir),
      ([''srv'', ''templates'', ''android-webview'', ''app''], Dir),
      ([''srv'', ''templates'', ''android-webview'', ''app'', ''build.gradle''],
         File ''id {{PACKAGE_NAME}} v {{VERSION}}''),
      ([''srv'', ''templates'', ''android-webview'', ''app'', ''src''], Dir),
      ([''srv'', ''templates'', ''android-webview'', ''app'', ''src'', ''main''], Dir),
      ([''srv'', ''templates'', ''android-webview'', ''app'', ''src'', ''main'',
        ''AndroidManifest.xml''],
         File ''<m p={{PACKAGE_NAME}} l={{APP_NAME}} v={{VERSION}}>''),
      ([''srv'', ''templates'', ''android-webview'', ''app'', ''src'', ''main'', ''java''], Dir),
      ([''srv'', ''templates'', ''android-webview'', ''app'', ''src'', ''main'', ''java'',
        ''com''], Dir),
      ([''srv'', ''templates'', ''android-webview'', ''app'', ''src'', ''main'', ''java'',
        ''com'', ''example''], Dir),
      ([''srv'', ''templates'', ''android-webview'', ''app'', ''src'', ''main'', ''java'',
        ''com'', ''example'', ''webview''], Dir),
      ([''srv'', ''templates'', ''android-webview'', ''app'', ''src'', ''main'', ''java'',
        ''com'', ''example'', ''webview'', ''MainActivity.java''],
         File ''load({{URL}})'')]"

definition ex_form :: multipart_form where
  "ex_form = \<lparr>appName = Some ''Demo'', packageName = Some ''com.demo'',
              version = Some ''1.0'', url = Some ''https://demo.test/'',
              icon_part = None, htmlFile_part = None\<rparr>"

definition ex_request :: request where
  "ex_request = \<lparr>appName = Some ''Demo'', packageName = Some ''com.demo'',
                 version = Some ''1.0'', url = Some ''https://demo.test/'',
                 icon = None, htmlFile = None\<rparr>"

text \<open>A disk on which the build \<open>b1\<close> has succeeded.\<close>

definition ex_built_disk :: fs where
  "ex_built_disk = map_of
     [([], Dir), ([''srv''], Dir), ([''srv'', ''temp''], Dir), ([''srv'', ''temp'', ''b1''], Dir),
      ([''srv'', ''temp'', ''b1'', ''app''], Dir),
      ([''srv'', ''temp'', ''b1'', ''app'', ''build.gradle''], File ''id com.demo v 1.0''),
      ([''srv'', ''temp'', ''b1'', ''app'', ''build''], Dir),
      ([''srv'', ''temp'', ''b1'', ''app'', ''build'', ''outputs''], Dir),
      ([''srv'', ''temp'', ''b1'', ''app'', ''build'', ''outputs'', ''apk''], Dir),
      ([''srv'', ''temp'', ''b1'', ''app'', ''build'', ''outputs'', ''apk'', ''debug''], Dir),
      ([''srv'', ''temp'', ''b1'', ''app'', ''build'', ''outputs'', ''apk'', ''debug'',
        ''app-debug.apk''], File ''APK'')]"

text \<open>The disk after the upload layer has staged an icon for a request.\<close>

definition ex_staged_disk :: fs where
  "ex_staged_disk = ex_disk([''srv'', ''temp'', ''u1''] \<mapsto> Dir,
                            [''srv'', ''temp'', ''u1'', ''icon.png''] \<mapsto> File ''PNG'')"

definition ex_icon_request :: request where
  "ex_icon_request = ex_request\<lparr>icon :=
     Some \<lparr>originalname = ''icon.png'', path = [''srv'', ''temp'', ''u1'', ''icon.png'']\<rparr>\<rparr>"

text \<open>A disk with a file outside the temp root, at the place \<open>..\<close> resolves to.\<close>

definition ex_outside_disk :: fs where
  "ex_outside_disk = ex_disk([''srv'', ''app'', ''build'', ''outputs'', ''apk'', ''debug''] \<mapsto> Dir,
     [''srv'', ''app'', ''build'', ''outputs'', ''apk'', ''debug'', ''app-debug.apk'']
       \<mapsto> File ''not a build of this service'')"

text \<open>The disk after the upload layer has staged an archive, and after it has staged a page.\<close>

definition ex_zip_disk :: fs where
  "ex_zip_disk = ex_disk([''srv'', ''temp'', ''u2''] \<mapsto> Dir,
                         [''srv'', ''temp'', ''u2'', ''site.zip''] \<mapsto> File ''PK'')"

definition ex_html_disk :: fs where
  "ex_html_disk = ex_disk([''srv'', ''temp'', ''u2''] \<mapsto> Dir,
                          [''srv'', ''temp'', ''u2'', ''home.htm''] \<mapsto> File ''<p>hi</p>'')"

section \<open>Evaluation of the model\<close>

lemmas path_defs = path_join_def norm_step_def path_dirname_def path_extname_def
  build_dir_def staging_dir_def apk_rel_def download_apk_path_def temp_root_def
  templateDir_def

lemmas fs_defs = then_do_def ensureDirSync_def mkdirs_def fs_copy_def merge_tree_def
  readFile_def writeFile_def rewrite_file_def fs_remove_def existsSync_def is_file_def
  extract_zip_def safe_rel_def

lemmas substitute_defs = substitute_manifest_def substitute_gradle_def
  substitute_main_activity_def js_replace_def

lemmas handler_defs = post_generate_app_def upload_fields_def store_optional_def
  store_file_def generate_app_def prepare_def handle_icon_def handle_html_def
  exec_callback_def download_def Let_def

lemmas ex_defs = ex_env_def ex_env_no_apk_def ex_env_late_failure_def ex_env_failure_def
  ex_write_apk_def ex_disk_def ex_form_def ex_request_def ex_built_disk_def
  ex_staged_disk_def ex_icon_request_def ex_outside_disk_def ex_zip_disk_def
  ex_html_disk_def

section \<open>The first occurrence, and only it\<close>









section \<open>Values at the placeholders\<close>












section \<open>Facts about paths\<close>

lemma path_join_append: "path_join (path_join b xs) ys = path_join b (xs @ ys)"
  by (simp add: path_join_def)

lemma download_apk_path_eq:
  "download_apk_path e buildId = path_join (build_dir e buildId) [apk_rel]"
  by (simp add: download_apk_path_def build_dir_def path_join_append)




lemma manifest_path: "path_join d [''app/src/main/AndroidManifest.xml''] = d @ manifest_rel"
  by (simp add: path_join_def norm_step_def manifest_rel_def)

lemma gradle_path: "path_join d [''app/build.gradle''] = d @ gradle_rel"
  by (simp add: path_join_def norm_step_def gradle_rel_def)

lemma main_activity_path:
  "path_join d [''app/src/main/java/com/example/webview/MainActivity.java''] =
     d @ main_activity_rel"
  by (simp add: path_join_def norm_step_def main_activity_rel_def)

lemma icon_path:
  "path_join d [''app/src/main/res/mipmap-xxxhdpi/ic_launcher.png''] = d @ icon_rel"
  by (simp add: path_join_def norm_step_def icon_rel_def)

lemma web_path: "path_join d [''app/src/main/assets/web''] = d @ web_rel"
  by (simp add: path_join_def norm_step_def web_rel_def)

lemma index_html_path: "path_join d [''index.html''] = d @ [''index.html'']"
  by (simp add: path_join_def norm_step_def)

lemma apk_path:
  "path_join d [apk_rel] =
     d @ [''app'', ''build'', ''outputs'', ''apk'', ''debug'', ''app-debug.apk'']"
  by (simp add: path_join_def norm_step_def apk_rel_def)

lemmas fixed_paths = manifest_path gradle_path main_activity_path icon_path web_path
  index_html_path apk_path

section \<open>What the operations leave alone\<close>

lemma kept_outside_refl: "kept_outside d s s"
  by (simp add: kept_outside_def)

lemma kept_outside_trans:
  "kept_outside d s s1 \<Longrightarrow> kept_outside d s1 s2 \<Longrightarrow> kept_outside d s s2"
  by (simp add: kept_outside_def)


lemma mkdirs_keeps: "s p = Some n \<Longrightarrow> mkdirs d s p = Some n"
  by (simp add: mkdirs_def)

lemma ensureDirSync_kept: "kept_outside d' s (state_of (ensureDirSync d s))"
  by (simp add: ensureDirSync_def kept_outside_def mkdirs_keeps)

lemma writeFile_kept: "prefix d q \<Longrightarrow> kept_outside d s (state_of (writeFile q c s))"
  by (auto simp: writeFile_def kept_outside_def)

lemma then_do_kept:
  assumes "kept_outside d s (state_of r)"
    and "\<And>s1. r = Inr s1 \<Longrightarrow> kept_outside d s1 (state_of (f s1))"
  shows "kept_outside d s (state_of (then_do r f))"
proof (cases r)
  case (Inl x)
  with assms(1) show ?thesis by (simp add: then_do_def)
next
  case (Inr s1)
  with assms show ?thesis
    using kept_outside_trans[of d s s1] by (simp add: then_do_def)
qed

lemma fs_copy_kept: "prefix d dest \<Longrightarrow> kept_outside d s (state_of (fs_copy src dest s))"
proof -
  assume pre: "prefix d dest"
  have m: "\<And>s1. kept_outside d s1 (merge_tree s src dest s1)"
    unfolding kept_outside_def merge_tree_def using pre
    by (auto dest: prefix_order.trans)
  show ?thesis
    unfolding fs_copy_def
    by (auto simp: kept_outside_refl m split: option.splits intro!: then_do_kept ensureDirSync_kept)
qed


lemma extract_entries_kept: "kept_outside d s (state_of (extract_entries d es s))"
proof (induction es arbitrary: s)
  case Nil
  show ?case by (simp add: kept_outside_refl)
next
  case (Cons a es)
  obtain rel c where a: "a = (rel, c)" by (cases a)
  show ?case
    unfolding a
    by (auto simp: kept_outside_refl intro!: then_do_kept ensureDirSync_kept writeFile_kept Cons.IH)
qed

lemma extract_zip_kept: "kept_outside d s (state_of (extract_zip dec z d s))"
  by (auto simp: extract_zip_def kept_outside_refl extract_entries_kept split: sum.splits option.splits)

lemma handle_icon_kept: "kept_outside (d @ icon_rel) s (state_of (handle_icon d ic s))"
  by (auto simp: handle_icon_def kept_outside_refl icon_path split: option.splits
      intro!: fs_copy_kept)

lemma handle_html_kept: "kept_outside (d @ web_rel) s (state_of (handle_html e d h s))"
  by (auto simp: handle_html_def kept_outside_refl fixed_paths Let_def extract_zip_kept
      split: option.splits intro!: fs_copy_kept)


section \<open>The steps of a successful preparation\<close>

lemma then_do_Inr: "then_do r f = Inr s' \<longleftrightarrow> (\<exists>s1. r = Inr s1 \<and> f s1 = Inr s')"
  by (cases r) (auto simp: then_do_def)

lemma kept_outsideD:
  "kept_outside d s s' \<Longrightarrow> \<not> prefix d p \<Longrightarrow> s p = Some n \<Longrightarrow> s' p = Some n"
  by (simp add: kept_outside_def)

lemma prepare_Inr:
  assumes "prepare e req an pn ver u d s = Inr s7"
  obtains s1 s2 s3 s4 s5 s6 where
    "ensureDirSync d s = Inr s1"
    "fs_copy (templateDir e) d s1 = Inr s2"
    "rewrite_file (d @ manifest_rel) (substitute_manifest pn an ver) s2 = Inr s3"
    "rewrite_file (d @ gradle_rel) (substitute_gradle pn ver) s3 = Inr s4"
    "handle_icon d (icon req) s4 = Inr s5"
    "handle_html e d (htmlFile req) s5 = Inr s6"
    "rewrite_file (d @ main_activity_rel) (substitute_main_activity u) s6 = Inr s7"
  using assms unfolding prepare_def then_do_Inr fixed_paths by blast

lemma ensureDirSync_Inr:
  "ensureDirSync d s = Inr s1 \<Longrightarrow> s1 = mkdirs d s \<and> \<not> is_file s d"
  by (auto simp: ensureDirSync_def list_ex_iff split: if_splits)

lemma ensureDirSync_makes_dir: "ensureDirSync d s = Inr s1 \<Longrightarrow> s1 d = Some Dir"
proof -
  assume a: "ensureDirSync d s = Inr s1"
  then have "s1 = mkdirs d s" "\<not> is_file s d"
    using ensureDirSync_Inr by blast+
  then show ?thesis
    by (cases "s d"; cases "the (s d)") (auto simp: mkdirs_def is_file_def)
qed

lemma fs_copy_Inr:
  assumes "fs_copy src dest s = Inr s'"
  obtains n s1 where "s src = Some n" "\<not> prefix src dest"
    "ensureDirSync (path_dirname dest) s = Inr s1" "s' = merge_tree s src dest s1"
    "n = Dir \<longrightarrow> \<not> is_file s dest" "n \<noteq> Dir \<longrightarrow> s dest \<noteq> Some Dir"
proof -
  from assms have "\<exists>n s1. s src = Some n \<and> \<not> prefix src dest \<and>
      ensureDirSync (path_dirname dest) s = Inr s1 \<and> s' = merge_tree s src dest s1 \<and>
      (n = Dir \<longrightarrow> \<not> is_file s dest) \<and> (n \<noteq> Dir \<longrightarrow> s dest \<noteq> Some Dir)"
    by (auto simp: fs_copy_def then_do_Inr split: option.splits if_splits)
  then show ?thesis
    using that by blast
qed

lemma fs_copy_copies:
  assumes "fs_copy src dest s = Inr s'" and "s (src @ rel) = Some n"
  shows "s' (dest @ rel) = Some n"
  using assms(1)
proof (rule fs_copy_Inr)
  fix m s1 assume "s' = merge_tree s src dest s1"
  with assms(2) show ?thesis by (simp add: merge_tree_def)
qed

lemma fs_copy_keeps_dir:
  assumes "fs_copy src dest s = Inr s'" and "s dest = Some Dir"
  shows "s' dest = Some Dir"
  using assms(1)
proof (rule fs_copy_Inr)
  fix n s1 assume n: "s src = Some n" "n \<noteq> Dir \<longrightarrow> s dest \<noteq> Some Dir"
  with assms(2) have "s (src @ []) = Some Dir" by auto
  with assms(1) have "s' (dest @ []) = Some Dir" by (rule fs_copy_copies)
  then show ?thesis by simp
qed

lemma rewrite_file_Inr:
  assumes "rewrite_file q f s = Inr s'"
  obtains c where "s q = Some (File c)" "s' = s(q \<mapsto> File (f c))"
  using assms unfolding rewrite_file_def readFile_def writeFile_def
  by (auto split: option.splits node.splits if_splits)

lemma state_of_Inr: "r = Inr s' \<Longrightarrow> state_of r = s'"
  by simp

lemma prepare_workspace_dir:
  assumes "prepare e req an pn ver u d s = Inr s7"
  shows "s7 d = Some Dir"
  using assms
proof (rule prepare_Inr)
  fix s1 s2 s3 s4 s5 s6
  assume st: "ensureDirSync d s = Inr s1"
    "fs_copy (templateDir e) d s1 = Inr s2"
    "rewrite_file (d @ manifest_rel) (substitute_manifest pn an ver) s2 = Inr s3"
    "rewrite_file (d @ gradle_rel) (substitute_gradle pn ver) s3 = Inr s4"
    "handle_icon d (icon req) s4 = Inr s5"
    "handle_html e d (htmlFile req) s5 = Inr s6"
    "rewrite_file (d @ main_activity_rel) (substitute_main_activity u) s6 = Inr s7"
  have "s1 d = Some Dir"
    using st(1) by (rule ensureDirSync_makes_dir)
  then have "s2 d = Some Dir"
    using st(2) by (simp add: fs_copy_keeps_dir)
  then have "s3 d = Some Dir"
    using st(3) by (auto elim!: rewrite_file_Inr simp: manifest_rel_def)
  then have "s4 d = Some Dir"
    using st(4) by (auto elim!: rewrite_file_Inr simp: gradle_rel_def)
  then have "s5 d = Some Dir"
    using kept_outsideD[OF handle_icon_kept[of d s4 "icon req"], of d Dir] st(5)
    by (simp add: icon_rel_def)
  then have "s6 d = Some Dir"
    using kept_outsideD[OF handle_html_kept[of d s5 e "htmlFile req"], of d Dir] st(6)
    by (simp add: web_rel_def)
  then show "s7 d = Some Dir"
    using st(7) by (auto elim!: rewrite_file_Inr simp: main_activity_rel_def)
qed

section \<open>The handler, branch by branch\<close>


lemma generate_app_run:
  assumes "required (appName req) = Some an" and "required (packageName req) = Some pn"
    and "required (version req) = Some ver" and "required (url req) = Some u"
  shows "generate_app e req buildId s =
           (case prepare e req an pn ver u (build_dir e buildId) s of
              Inl (err, s') \<Rightarrow> (Json 500 (ErrorBody ''Internal server error''), s')
            | Inr s1 \<Rightarrow>
                (case gradlew e (build_dir e buildId) s1 of
                   (err, s2) \<Rightarrow> exec_callback req buildId (build_dir e buildId) err s2))"
  using assms by (simp add: generate_app_def Let_def)

text \<open>
  Claim C6. When all four fields are present, the preparation succeeds, the build
  command reports no error and the artifact is not at its fixed path in the
  workspace, the request is answered with status 500 and the message
  \<open>APK generation failed\<close>: not a success, and not the answer given when the
  build command fails.
\<close>

theorem artifact_missing_is_a_distinct_failure:
  assumes "required (appName req) = Some an" and "required (packageName req) = Some pn"
    and "required (version req) = Some ver" and "required (url req) = Some u"
    and "prepare e req an pn ver u (build_dir e buildId) s = Inr s1"
    and "gradlew e (build_dir e buildId) s1 = (False, s2)"
    and "\<not> existsSync (path_join (build_dir e buildId) [apk_rel]) s2"
  shows "generate_app e req buildId s = (Json 500 (ErrorBody ''APK generation failed''), s2) \<and>
         fst (generate_app e req buildId s) \<noteq>
           fst (exec_callback req buildId (build_dir e buildId) True s2) \<and>
         \<not> is_success (fst (generate_app e req buildId s))"
  using assms(5-7) unfolding generate_app_run[OF assms(1-4)]
  by (simp add: exec_callback_def)

theorem artifact_missing_is_a_distinct_failure_witness:
  "fst (generate_app ex_env_no_apk ex_request ''b1'' ex_disk) =
     Json 500 (ErrorBody ''APK generation failed'')"
proof -
  have fields: "required (appName ex_request) = Some ''Demo''"
    "required (packageName ex_request) = Some ''com.demo''"
    "required (version ex_request) = Some ''1.0''"
    "required (url ex_request) = Some ''https://demo.test/''"
    by (simp_all add: ex_request_def)
  have "\<exists>s1. prepare ex_env_no_apk ex_request ''Demo'' ''com.demo'' ''1.0'' ''https://demo.test/''
               (build_dir ex_env_no_apk ''b1'') ex_disk = Inr s1 \<and>
             \<not> existsSync (path_join (build_dir ex_env_no_apk ''b1'') [apk_rel]) s1"
    by (simp add: handler_defs fs_defs path_defs substitute_defs ex_defs)
  then obtain s1 where
    p: "prepare ex_env_no_apk ex_request ''Demo'' ''com.demo'' ''1.0'' ''https://demo.test/''
          (build_dir ex_env_no_apk ''b1'') ex_disk = Inr s1"
    and a: "\<not> existsSync (path_join (build_dir ex_env_no_apk ''b1'') [apk_rel]) s1"
    by blast
  have g: "gradlew ex_env_no_apk (build_dir ex_env_no_apk ''b1'') s1 = (False, s1)"
    by (simp add: ex_env_no_apk_def ex_env_def)
  show ?thesis
    using artifact_missing_is_a_distinct_failure[OF fields p g a] by simp
qed

lemma handle_html_env: "handle_html (e\<lparr>gradlew := g\<rparr>) = handle_html e"
  by (intro ext) (simp add: handle_html_def Let_def split: option.splits)

lemma prepare_env: "prepare (e\<lparr>gradlew := g\<rparr>) = prepare e"
  by (intro ext) (simp add: prepare_def handle_html_env templateDir_def)

lemma ex_prepare:
  "\<exists>s1. prepare ex_env ex_request ''Demo'' ''com.demo'' ''1.0'' ''https://demo.test/''
               [''srv'', ''temp'', ''b1''] ex_disk = Inr s1 \<and>
        s1 [''srv'', ''temp'', ''b1''] = Some Dir \<and>
        s1 [''srv'', ''temp'', ''b1'', ''app'', ''build'', ''outputs'', ''apk'', ''debug'',
            ''app-debug.apk''] = None"
  by (simp add: handler_defs fs_defs path_defs substitute_defs ex_defs)

lemma build_dir_ex:
  "build_dir (ex_env\<lparr>gradlew := g\<rparr>) ''b1'' = [''srv'', ''temp'', ''b1'']"
  by (simp add: path_defs ex_env_def)


text \<open>
  Claim C7, refuted as stated. A build command can write the artifact and still
  end with an error (a later task fails, or \<open>exec\<close> stops it when its output
  exceeds the buffer). The handler answers 500, and since it neither looks at nor
  removes the artifact, the download of that build succeeds.
\<close>

theorem build_error_keeps_workspace_counterexample:
  "fst (generate_app ex_env_late_failure ex_request ''b1'' ex_disk) =
     Json 500 (ErrorBody ''Failed to build APK'') \<and>
   fst (download ex_env_late_failure True ''b1''
          (snd (generate_app ex_env_late_failure ex_request ''b1'' ex_disk))) =
     Attachment ''app.apk'' ''APK''"
proof -
  have "\<exists>r s'. generate_app ex_env_late_failure ex_request ''b1'' ex_disk = (r, s') \<and>
          r = Json 500 (ErrorBody ''Failed to build APK'') \<and>
          fst (download ex_env_late_failure True ''b1'' s') = Attachment ''app.apk'' ''APK''"
    by (simp add: handler_defs fs_defs path_defs substitute_defs ex_defs)
  then show ?thesis
    by auto
qed


text \<open>
  Claim C7, amended. When the build command reports an error, the request is
  answered with status 500 and an error body (no download URL), the workspace
  directory existed when the command started and the handler leaves the disk as
  the command left it (nothing is deleted); and if no artifact is at the fixed
  path then, the download of that build answers 404.
\<close>

theorem build_error_keeps_workspace:
  assumes "required (appName req) = Some an" and "required (packageName req) = Some pn"
    and "required (version req) = Some ver" and "required (url req) = Some u"
    and "prepare e req an pn ver u (build_dir e buildId) s = Inr s1"
    and "gradlew e (build_dir e buildId) s1 = (True, s2)"
  shows "generate_app e req buildId s = (Json 500 (ErrorBody ''Failed to build APK''), s2) \<and>
         s1 (build_dir e buildId) = Some Dir \<and>
         (\<not> existsSync (download_apk_path e buildId) s2 \<longrightarrow>
            download e stream_ok buildId s2 = (Json 404 (ErrorBody ''APK not found''), s2))"
  using assms(5-6) prepare_workspace_dir[OF assms(5)] unfolding generate_app_run[OF assms(1-4)]
  by (simp add: exec_callback_def download_def)

theorem build_error_keeps_workspace_witness:
  "fst (generate_app ex_env_failure ex_request ''b1'' ex_disk) =
     Json 500 (ErrorBody ''Failed to build APK'') \<and>
   fst (download ex_env_failure True ''b1''
          (snd (generate_app ex_env_failure ex_request ''b1'' ex_disk))) =
     Json 404 (ErrorBody ''APK not found'')"
proof -
  have fields: "required (appName ex_request) = Some ''Demo''"
    "required (packageName ex_request) = Some ''com.demo''"
    "required (version ex_request) = Some ''1.0''"
    "required (url ex_request) = Some ''https://demo.test/''"
    by (simp_all add: ex_request_def)
  have bd: "build_dir ex_env_failure ''b1'' = [''srv'', ''temp'', ''b1'']"
    by (simp add: ex_env_failure_def build_dir_ex)
  have pe: "prepare ex_env_failure = prepare ex_env"
    by (simp add: ex_env_failure_def prepare_env)
  obtain s1 where
    p: "prepare ex_env_failure ex_request ''Demo'' ''com.demo'' ''1.0'' ''https://demo.test/''
          (build_dir ex_env_failure ''b1'') ex_disk = Inr s1"
    and a: "s1 [''srv'', ''temp'', ''b1'', ''app'', ''build'', ''outputs'', ''apk'', ''debug'',
               ''app-debug.apk''] = None"
    using ex_prepare unfolding bd pe by blast
  have g: "gradlew ex_env_failure (build_dir ex_env_failure ''b1'') s1 = (True, s1)"
    by (simp add: ex_env_failure_def ex_env_def)
  have ap: "download_apk_path ex_env_failure ''b1'' =
      [''srv'', ''temp'', ''b1'', ''app'', ''build'', ''outputs'', ''apk'', ''debug'', ''app-debug.apk'']"
    by (simp add: path_defs ex_env_failure_def ex_env_def)
  have "\<not> existsSync (download_apk_path ex_env_failure ''b1'') s1"
    using a by (simp add: ap existsSync_def)
  then show ?thesis
    using build_error_keeps_workspace[OF fields p g, of True] by simp
qed


section \<open>Staging directories when a request fails\<close>



lemma staging_removed_on_success:
  assumes "is_success (fst (generate_app e req buildId s))"
  shows "\<exists>f. icon req = Some f \<and>
           snd (generate_app e req buildId s) (path_dirname (path f)) = None \<and>
           (\<forall>h. htmlFile req = Some h \<longrightarrow>
                snd (generate_app e req buildId s) (path_dirname (path h)) = None)"
  using assms
  by (auto simp: generate_app_def exec_callback_def Let_def fs_remove_def
      split: option.splits sum.splits prod.splits if_splits)





section \<open>Requests that are rejected or never answered\<close>






text \<open>
  Claim C1, which the code breaks. A request with the four fields and no icon,
  a build command that succeeds and writes the artifact: the callback evaluates
  \<open>files.icon[0].path\<close> (line 107) although \<open>files.icon\<close> is undefined, the
  exception is thrown outside the \<open>try\<close> block, and no response is sent.
\<close>

theorem no_icon_gets_no_response:
  "fst (post_generate_app ex_env ''u1'' ''u2'' ''b1'' ex_form ex_disk) = NoResponse"
  by (simp add: handler_defs fs_defs path_defs substitute_defs ex_defs)

lemma success_needs_icon:
  "icon req = None \<Longrightarrow> \<not> is_success (fst (generate_app e req buildId s))"
  by (auto simp: generate_app_def exec_callback_def Let_def
      split: option.splits sum.splits prod.splits)

section \<open>The download route\<close>

text \<open>
  Claim C3, which the code breaks. On a disk where the build \<open>b1\<close> has succeeded,
  the first download sends the artifact and the second is answered 404, whether the
  stream completed or not; but what the callback removes is
  \<open>path.dirname(apkPath)\<close>, the directory \<open>app/build/outputs/apk/debug\<close>: the
  workspace directory and its other files are still on disk.
\<close>

theorem download_removes_only_the_apk_directory:
  "fst (download ex_env True ''b1'' ex_built_disk) = Attachment ''app.apk'' ''APK'' \<and>
   snd (download ex_env True ''b1'' ex_built_disk) =
     fs_remove [''srv'', ''temp'', ''b1'', ''app'', ''build'', ''outputs'', ''apk'', ''debug'']
       ex_built_disk \<and>
   snd (download ex_env False ''b1'' ex_built_disk) =
     snd (download ex_env True ''b1'' ex_built_disk) \<and>
   fst (download ex_env True ''b1'' (snd (download ex_env True ''b1'' ex_built_disk))) =
     Json 404 (ErrorBody ''APK not found'') \<and>
   snd (download ex_env True ''b1'' ex_built_disk) [''srv'', ''temp'', ''b1''] = Some Dir \<and>
   snd (download ex_env True ''b1'' ex_built_disk) [''srv'', ''temp'', ''b1'', ''app'', ''build.gradle'']
     = Some (File ''id com.demo v 1.0'')"
  by (simp add: handler_defs fs_defs path_defs ex_defs)

lemma download_apk_path_temp_root:
  "download_apk_path e buildId = path_join (temp_root e) [buildId, apk_rel]"
  by (simp add: download_apk_path_def temp_root_def path_join_append)

lemma dotdot_leaves_temp_root:
  "\<not> prefix (temp_root e) (path_join (temp_root e) [''..'', apk_rel])"
  by (simp add: temp_root_def path_join_def norm_step_def apk_rel_def)

text \<open>
  Claim C9. The path served for a \<open>buildId\<close> is the join of the temp root, the
  \<open>buildId\<close> as given and the fixed relative path of the artifact, and whatever
  file is there is sent: nothing checks that the \<open>buildId\<close> is an identifier the
  service generated. For the \<open>buildId\<close> \<open>..\<close> that path is outside the temp root.
\<close>

theorem download_path_is_not_validated:
  "(\<forall>bytes. s (path_join (temp_root e) [buildId, apk_rel]) = Some (File bytes) \<longrightarrow>
      fst (download e True buildId s) = Attachment ''app.apk'' bytes) \<and>
   (\<exists>b. ''..'' \<in> set (split_slash b) \<and>
        \<not> prefix (temp_root e) (path_join (temp_root e) [b, apk_rel]) \<and>
        (\<forall>s' bytes. s' (path_join (temp_root e) [b, apk_rel]) = Some (File bytes) \<longrightarrow>
           fst (download e True b s') = Attachment ''app.apk'' bytes))"
proof -
  have served: "fst (download e True b s') = Attachment ''app.apk'' bytes"
    if "s' (path_join (temp_root e) [b, apk_rel]) = Some (File bytes)" for b s' bytes
    using that by (simp add: download_def download_apk_path_temp_root existsSync_def)
  have "''..'' \<in> set (split_slash ''..'')"
    by simp
  then show ?thesis
    using served dotdot_leaves_temp_root by blast
qed

theorem download_path_is_not_validated_witness:
  "path_join (temp_root ex_env) [''..'', apk_rel] =
     [''srv'', ''app'', ''build'', ''outputs'', ''apk'', ''debug'', ''app-debug.apk''] \<and>
   fst (download ex_env True ''..'' ex_outside_disk) =
     Attachment ''app.apk'' ''not a build of this service''"
proof -
  have p: "path_join (temp_root ex_env) [''..'', apk_rel] =
     [''srv'', ''app'', ''build'', ''outputs'', ''apk'', ''debug'', ''app-debug.apk'']"
    by (simp add: path_defs ex_env_def)
  have "ex_outside_disk (path_join (temp_root ex_env) [''..'', apk_rel]) =
          Some (File ''not a build of this service'')"
    unfolding p by (simp add: ex_outside_disk_def)
  then show ?thesis
    using download_path_is_not_validated[of ex_outside_disk ex_env "''..''"] p by blast
qed

section \<open>The workspace after the substitution\<close>





section \<open>Web content\<close>

lemma is_file_iff: "is_file s q \<longleftrightarrow> (\<exists>c. s q = Some (File c))"
  by (auto simp: is_file_def split: option.splits node.splits)

lemma no_file_above:
  "\<not> list_ex (is_file s) (prefixes d) \<longleftrightarrow> (\<forall>q. prefix q d \<longrightarrow> \<not> is_file s q)"
  by (auto simp: list_ex_iff)

lemma ensureDirSync_ok:
  "\<not> list_ex (is_file s) (prefixes d) \<Longrightarrow> ensureDirSync d s = Inr (mkdirs d s)"
  by (simp add: ensureDirSync_def)

lemma mkdirs_dir:
  "\<not> list_ex (is_file s) (prefixes d) \<Longrightarrow> mkdirs d s d = Some Dir"
proof -
  assume a: "\<not> list_ex (is_file s) (prefixes d)"
  then have "\<not> is_file s d"
    by (simp add: no_file_above)
  then show ?thesis
    by (cases "s d"; cases "the (s d)") (auto simp: mkdirs_def is_file_def)
qed

lemma mkdirs_file: "mkdirs d s q = Some (File c) \<longleftrightarrow> s q = Some (File c)"
  by (auto simp: mkdirs_def split: option.splits)

lemma is_file_mkdirs: "is_file (mkdirs d s) q \<longleftrightarrow> is_file s q"
  by (simp add: is_file_iff mkdirs_file)

lemma not_prefix_butlast: "x \<noteq> [] \<Longrightarrow> \<not> prefix x (butlast x)"
proof
  assume "x \<noteq> []" and "prefix x (butlast x)"
  then have "length x \<le> length (butlast x)"
    by (simp add: prefix_length_le del: length_butlast)
  with \<open>x \<noteq> []\<close> show False
    by (cases x rule: rev_cases) auto
qed

lemma prefix_butlast_strict:
  "x \<noteq> [] \<Longrightarrow> prefix q (butlast x) \<longleftrightarrow> strict_prefix q x"
proof -
  assume "x \<noteq> []"
  then obtain ys y where x: "x = ys @ [y]"
    by (cases x rule: rev_cases) auto
  show ?thesis
    unfolding x by (auto simp: strict_prefix_def prefix_snoc)
qed

lemma extract_step:
  assumes "safe_rel rel" and "s (dir @ rel) \<noteq> Some Dir"
    and "\<not> list_ex (is_file s) (prefixes (path_dirname (dir @ rel)))"
  shows "then_do (ensureDirSync (path_dirname (dir @ rel)) s)
           (\<lambda>s1. then_do (writeFile (dir @ rel) c s1) f) =
         f ((mkdirs (path_dirname (dir @ rel)) s)(dir @ rel \<mapsto> File c))"
proof -
  have ne: "dir @ rel \<noteq> []"
    using assms(1) by (simp add: safe_rel_def)
  have a: "mkdirs (path_dirname (dir @ rel)) s (dir @ rel) \<noteq> Some Dir"
    using assms(2) not_prefix_butlast[OF ne]
    by (auto simp: mkdirs_def path_dirname_def split: option.splits)
  have b: "mkdirs (path_dirname (dir @ rel)) s (path_dirname (dir @ rel)) = Some Dir"
    by (rule mkdirs_dir[OF assms(3)])
  show ?thesis
    by (simp add: ensureDirSync_ok[OF assms(3)] then_do_def writeFile_def a b)
qed

lemma extract_entries_ok:
  assumes "no_conflicts es" and "can_extract dir es s"
  shows "\<exists>s'. extract_entries dir es s = Inr s' \<and>
           (\<forall>(rel, c) \<in> set es. s' (dir @ rel) = Some (File c)) \<and>
           (\<forall>p c. s p = Some (File c) \<and> p \<notin> (\<lambda>(rel, c). dir @ rel) ` set es \<longrightarrow>
                    s' p = Some (File c))"
  using assms
proof (induction es arbitrary: s)
  case Nil
  then show ?case by simp
next
  case (Cons a es)
  obtain rel c where a: "a = (rel, c)" by (cases a)
  let ?p = "dir @ rel"
  let ?s2 = "(mkdirs (path_dirname ?p) s)(?p \<mapsto> File c)"
  have hd: "safe_rel rel" "s ?p \<noteq> Some Dir"
    "\<not> list_ex (is_file s) (prefixes (path_dirname ?p))"
    using Cons.prems(2) by (auto simp: can_extract_def a)
  have ne: "?p \<noteq> []"
    using hd(1) by (simp add: safe_rel_def)
  have step: "extract_entries dir (a # es) s = extract_entries dir es ?s2"
    using hd by (simp add: a extract_step)
  have nc: "no_conflicts es"
    using Cons.prems(1) by (auto simp: no_conflicts_def)
  have ce: "can_extract dir es ?s2"
    unfolding can_extract_def
  proof (intro ballI, clarify)
    fix r2 c2 assume in2: "(r2, c2) \<in> set es"
    then have old: "safe_rel r2" "s (dir @ r2) \<noteq> Some Dir"
      "\<not> list_ex (is_file s) (prefixes (path_dirname (dir @ r2)))"
      using Cons.prems(2) by (auto simp: can_extract_def)
    have ne2: "dir @ r2 \<noteq> []"
      using old(1) by (simp add: safe_rel_def)
    have nsp: "\<not> strict_prefix r2 rel" "\<not> strict_prefix rel r2"
      using Cons.prems(1) in2 by (auto simp: no_conflicts_def a)
    have "\<not> prefix (dir @ r2) (path_dirname ?p)"
      using nsp(1) by (simp add: path_dirname_def prefix_butlast_strict[OF ne] strict_prefix_def)
    then have d: "?s2 (dir @ r2) \<noteq> Some Dir"
      using old(2) by (auto simp: mkdirs_def split: option.splits)
    have "\<not> prefix ?p (path_dirname (dir @ r2))"
      using nsp(2) by (simp add: path_dirname_def prefix_butlast_strict[OF ne2] strict_prefix_def)
    then have f: "\<not> list_ex (is_file ?s2) (prefixes (path_dirname (dir @ r2)))"
      using old(3) unfolding no_file_above
      by (auto simp: is_file_iff mkdirs_file)
    show "safe_rel r2 \<and> ?s2 (dir @ r2) \<noteq> Some Dir \<and>
          \<not> list_ex (is_file ?s2) (prefixes (path_dirname (dir @ r2)))"
      using old(1) d f by simp
  qed
  obtain s' where s': "extract_entries dir es ?s2 = Inr s'"
    "\<forall>(rel, c) \<in> set es. s' (dir @ rel) = Some (File c)"
    "\<forall>p c. ?s2 p = Some (File c) \<and> p \<notin> (\<lambda>(rel, c). dir @ rel) ` set es \<longrightarrow> s' p = Some (File c)"
    using Cons.IH[OF nc ce] by blast
  have head: "s' ?p = Some (File c)"
  proof (cases "?p \<in> (\<lambda>(rel, c). dir @ rel) ` set es")
    case True
    then obtain c' where in': "(rel, c') \<in> set es"
      by auto
    then have "c' = c"
      using Cons.prems(1) by (auto simp: no_conflicts_def a)
    with in' s'(2) show ?thesis
      by auto
  next
    case False
    then show ?thesis
      using s'(3) by simp
  qed
  have frame: "s' p = Some (File c0)"
    if "s p = Some (File c0)" "p \<notin> (\<lambda>(rel, c). dir @ rel) ` set (a # es)" for p c0
  proof -
    have "p \<noteq> ?p" "p \<notin> (\<lambda>(rel, c). dir @ rel) ` set es"
      using that(2) by (auto simp: a)
    moreover have "?s2 p = Some (File c0)"
      using that(1) \<open>p \<noteq> ?p\<close> by (simp add: mkdirs_file)
    ultimately show ?thesis
      using s'(3) by blast
  qed
  show ?case
    using step s'(1,2) head frame by (auto simp: a)
qed

lemma copy_file_ok:
  assumes "s src = Some (File bytes)" and "\<not> prefix src dest" and "s dest \<noteq> Some Dir"
    and "\<not> list_ex (is_file s) (prefixes (path_dirname dest))"
  shows "\<exists>s'. fs_copy src dest s = Inr s' \<and> s' dest = Some (File bytes)"
  using assms
  by (simp add: fs_copy_def ensureDirSync_ok then_do_def merge_tree_def)

text \<open>
  Claim C5. For an uploaded web-content asset that is staged as a file: when its
  extension is \<open>.zip\<close> (what the handler takes as the sign of an archive), the
  archive decodes to entries that do not conflict with one another or the disk,
  every entry is afterwards a file with its bytes at its relative path, whatever
  its depth, below \<open>app/src/main/assets/web\<close> of the workspace; with any other
  extension the file is afterwards \<open>index.html\<close> in that directory, with the
  uploaded bytes.
\<close>

theorem web_content_is_placed:
  assumes "s (path f) = Some (File bytes)"
  shows "(path_extname (path f) = ''.zip'' \<and> unzip e bytes = Some es \<and> no_conflicts es \<and>
          can_extract (path_join d [''app/src/main/assets/web'']) es s \<longrightarrow>
            (\<exists>s'. handle_html e d (Some f) s = Inr s' \<and>
                  (\<forall>(rel, c) \<in> set es.
                     s' (path_join d [''app/src/main/assets/web''] @ rel) = Some (File c)))) \<and>
         (path_extname (path f) \<noteq> ''.zip'' \<and>
          \<not> prefix (path f) (path_join d [''app/src/main/assets/web''] @ [''index.html'']) \<and>
          s (path_join d [''app/src/main/assets/web''] @ [''index.html'']) \<noteq> Some Dir \<and>
          \<not> list_ex (is_file s) (prefixes (path_join d [''app/src/main/assets/web''])) \<longrightarrow>
            (\<exists>s'. handle_html e d (Some f) s = Inr s' \<and>
                  s' (path_join d [''app/src/main/assets/web''] @ [''index.html'']) =
                    Some (File bytes)))"
proof (intro conjI impI)
  assume z: "path_extname (path f) = ''.zip'' \<and> unzip e bytes = Some es \<and> no_conflicts es \<and>
          can_extract (path_join d [''app/src/main/assets/web'']) es s"
  then have "handle_html e d (Some f) s =
               extract_entries (path_join d [''app/src/main/assets/web'']) es s"
    using assms by (simp add: handle_html_def extract_zip_def readFile_def)
  then show "\<exists>s'. handle_html e d (Some f) s = Inr s' \<and>
                  (\<forall>(rel, c) \<in> set es.
                     s' (path_join d [''app/src/main/assets/web''] @ rel) = Some (File c))"
    using extract_entries_ok[of es "path_join d [''app/src/main/assets/web'']" s] z by auto
next
  let ?dest = "path_join d [''app/src/main/assets/web''] @ [''index.html'']"
  assume h: "path_extname (path f) \<noteq> ''.zip'' \<and> \<not> prefix (path f) ?dest \<and>
          s ?dest \<noteq> Some Dir \<and>
          \<not> list_ex (is_file s) (prefixes (path_join d [''app/src/main/assets/web'']))"
  then have "handle_html e d (Some f) s = fs_copy (path f) ?dest s"
    by (simp add: handle_html_def index_html_path)
  moreover have "\<exists>s'. fs_copy (path f) ?dest s = Inr s' \<and> s' ?dest = Some (File bytes)"
    using copy_file_ok[where s = s and src = "path f" and dest = ?dest and bytes = bytes] assms h
    by (simp add: path_dirname_def)
  ultimately show "\<exists>s'. handle_html e d (Some f) s = Inr s' \<and> s' ?dest = Some (File bytes)"
    by simp
qed

theorem web_content_is_placed_witness:
  "(\<exists>s'. handle_html ex_env [''srv'', ''temp'', ''b1'']
            (Some \<lparr>originalname = ''site.zip'', path = [''srv'', ''temp'', ''u2'', ''site.zip'']\<rparr>)
            ex_zip_disk = Inr s' \<and>
          s' [''srv'', ''temp'', ''b1'', ''app'', ''src'', ''main'', ''assets'', ''web'', ''js'', ''app.js'']
            = Some (File ''go()'')) \<and>
   (\<exists>s'. handle_html ex_env [''srv'', ''temp'', ''b1'']
            (Some \<lparr>originalname = ''home.htm'', path = [''srv'', ''temp'', ''u2'', ''home.htm'']\<rparr>)
            ex_html_disk = Inr s' \<and>
          s' [''srv'', ''temp'', ''b1'', ''app'', ''src'', ''main'', ''assets'', ''web'', ''index.html'']
            = Some (File ''<p>hi</p>''))"
proof -
  let ?z = "\<lparr>originalname = ''site.zip'', path = [''srv'', ''temp'', ''u2'', ''site.zip'']\<rparr>"
  let ?h = "\<lparr>originalname = ''home.htm'', path = [''srv'', ''temp'', ''u2'', ''home.htm'']\<rparr>"
  let ?es = "[([''index.html''], ''<h1>''), ([''js'', ''app.js''], ''go()'')]"
  let ?d = "[''srv'', ''temp'', ''b1'']"
  have w: "path_join ?d [''app/src/main/assets/web''] =
             [''srv'', ''temp'', ''b1'', ''app'', ''src'', ''main'', ''assets'', ''web'']"
    by (simp add: web_path web_rel_def)
  have z1: "ex_zip_disk (path ?z) = Some (File ''PK'')"
    by (simp add: ex_zip_disk_def)
  have z2: "path_extname (path ?z) = ''.zip'' \<and> unzip ex_env ''PK'' = Some ?es \<and> no_conflicts ?es \<and>
          can_extract (path_join ?d [''app/src/main/assets/web'']) ?es ex_zip_disk"
    unfolding w
    by (simp add: path_extname_def ex_env_def no_conflicts_def can_extract_def safe_rel_def
        path_dirname_def is_file_def ex_zip_disk_def ex_disk_def)
  have h1: "ex_html_disk (path ?h) = Some (File ''<p>hi</p>'')"
    by (simp add: ex_html_disk_def)
  have h2: "path_extname (path ?h) \<noteq> ''.zip'' \<and>
          \<not> prefix (path ?h) (path_join ?d [''app/src/main/assets/web''] @ [''index.html'']) \<and>
          ex_html_disk (path_join ?d [''app/src/main/assets/web''] @ [''index.html'']) \<noteq> Some Dir \<and>
          \<not> list_ex (is_file ex_html_disk) (prefixes (path_join ?d [''app/src/main/assets/web'']))"
    unfolding w
    by (simp add: path_extname_def is_file_def ex_html_disk_def ex_disk_def)
  have a: "\<exists>s'. handle_html ex_env ?d (Some ?z) ex_zip_disk = Inr s' \<and>
            (\<forall>(rel, c) \<in> set ?es. s' (path_join ?d [''app/src/main/assets/web''] @ rel) = Some (File c))"
    using web_content_is_placed[where s = ex_zip_disk and f = ?z and bytes = "''PK''"
        and e = ex_env and es = ?es and d = ?d] z1 z2
    by blast
  have b: "\<exists>s'. handle_html ex_env ?d (Some ?h) ex_html_disk = Inr s' \<and>
            s' (path_join ?d [''app/src/main/assets/web''] @ [''index.html'']) = Some (File ''<p>hi</p>'')"
    using web_content_is_placed[where s = ex_html_disk and f = ?h and bytes = "''<p>hi</p>''"
        and e = ex_env and d = ?d] h1 h2
    by blast
  from a b show ?thesis
    unfolding w by auto
qed

end
